theory Spec2Isabelle
  imports Complex_Main
begin

section \<open>The preview player of LOVE-STORY-TOOLS (components/PreviewPlayer)\<close>

text \<open>
  The player is one React component. Its pure computations (text layout, scroll speed,
  duration, ticker geometry) are embedded as HOL functions; its effects (audio gains,
  the export tick, starting playback) as functions on explicit state records.

  JavaScript numbers are embedded as \<open>real\<close>: the finite values with exact arithmetic.
  A division whose divisor is zero yields a non-finite value in JavaScript (Infinity or
  NaN); it is the value \<open>None\<close> of \<open>js_div\<close>.
\<close>

subsection \<open>JavaScript primitives\<close>

definition js_div :: "real \<Rightarrow> real \<Rightarrow> real option" where
  \<comment> \<open>\<open>x / y\<close>; \<open>None\<close> stands for the non-finite result of a division by zero.\<close>
  "js_div x y = (if y = 0 then None else Some (x / y))"

definition js_trunc :: "real \<Rightarrow> int" where
  \<comment> \<open>rounding toward zero\<close>
  "js_trunc x = (if 0 \<le> x then \<lfloor>x\<rfloor> else \<lceil>x\<rceil>)"

definition js_rem :: "real \<Rightarrow> real \<Rightarrow> real option" where
  \<comment> \<open>\<open>x % y\<close>: the remainder has the sign of the dividend; NaN (\<open>None\<close>) for \<open>y = 0\<close>.\<close>
  "js_rem x y = (if y = 0 then None else Some (x - y * of_int (js_trunc (x / y))))"

definition truthy_num :: "real \<Rightarrow> bool" where
  \<comment> \<open>a finite number is falsy exactly when it is zero\<close>
  "truthy_num x = (x \<noteq> 0)"

definition truthy_str :: "string option \<Rightarrow> bool" where
  \<comment> \<open>\<open>null\<close>, \<open>undefined\<close> and the empty string are falsy\<close>
  "truthy_str s = (case s of None \<Rightarrow> False | Some t \<Rightarrow> t \<noteq> [])"

definition isSpace :: "char \<Rightarrow> bool" where
  \<comment> \<open>the characters of \<open>\s\<close> (and of \<open>trim\<close>) among the 8-bit characters:
      TAB, LF, VT, FF, CR, SPACE and NBSP\<close>
  "isSpace c = (c \<in> set [CHR 0x09, CHR 0x0A, CHR 0x0B, CHR 0x0C, CHR 0x0D, CHR 0x20, CHR 0xA0])"

definition trim :: "string \<Rightarrow> string" where
  "trim s = rev (dropWhile isSpace (rev (dropWhile isSpace s)))"

subsection \<open>Configuration\<close>

datatype AspectRatio = R16_9 | R9_16 | R1_1 | R4_5

text \<open>
  Modelled from the spec: the declaration of \<open>VideoConfig\<close> (\<open>../types\<close>) is not among the
  sources. The record has the fields the player reads in the code embedded below, with
  the types of their use there; the section 3 of the specification lists the same entity.
\<close>

record VideoConfig =
  aspectRatio :: AspectRatio
  script :: string
  fontSize :: real
  lineHeight :: real
  scrollSpeed :: real
  autoScrollSpeed :: bool
  audioUrl :: "string option"
  bgMusicUrl :: "string option"
  mainAudioVolume :: "real option"
  bgMusicVolume :: real
  muteOnExport :: bool
  tickerText :: "string option"
  tickerSpeed :: real
  fps :: real

fun getCanvasDimensions :: "AspectRatio \<Rightarrow> real \<times> real" where
  "getCanvasDimensions R9_16 = (1080, 1920)"
| "getCanvasDimensions R1_1 = (1080, 1080)"
| "getCanvasDimensions R4_5 = (1080, 1350)"
| "getCanvasDimensions R16_9 = (1920, 1080)"

definition CANVAS_WIDTH :: "VideoConfig \<Rightarrow> real" where
  "CANVAS_WIDTH cfg = fst (getCanvasDimensions (aspectRatio cfg))"

definition CANVAS_HEIGHT :: "VideoConfig \<Rightarrow> real" where
  "CANVAS_HEIGHT cfg = snd (getCanvasDimensions (aspectRatio cfg))"

definition PADDING_X :: "VideoConfig \<Rightarrow> real" where
  "PADDING_X cfg = CANVAS_WIDTH cfg * 0.05"

subsection \<open>Text layout engine\<close>

record segment =
  seg_text :: string
  seg_width :: real

record line =
  line_segments :: "segment list"
  line_width :: real

definition sanitize :: "string \<Rightarrow> string" where
  \<comment> \<open>\<open>script.replace(/\*+/g, '')\<close>\<close>
  "sanitize s = filter (\<lambda>c. c \<noteq> CHR ''*'') s"

fun splitLines :: "string \<Rightarrow> string list" where
  \<comment> \<open>\<open>s.split('\n')\<close>\<close>
  "splitLines [] = [[]]"
| "splitLines (c # cs) =
     (if c = CHR 0x0A then [] # splitLines cs
      else (case splitLines cs of [] \<Rightarrow> [[c]] | l # ls \<Rightarrow> (c # l) # ls))"

fun splitParts :: "bool \<Rightarrow> string \<Rightarrow> string \<Rightarrow> string list" where
  \<comment> \<open>\<open>line.split(/(\s+)/)\<close>: the text between whitespace runs and the runs themselves,
      in order; an empty string before a leading run and after a trailing one.
      \<open>inWs\<close> tells whether the part being read, \<open>cur\<close>, is a whitespace run.\<close>
  "splitParts inWs cur [] = (if inWs then [cur, []] else [cur])"
| "splitParts inWs cur (c # cs) =
     (if isSpace c = inWs then splitParts inWs (cur @ [c]) cs
      else cur # splitParts (isSpace c) [c] cs)"

definition lineSegments :: "(string \<Rightarrow> real) \<Rightarrow> string \<Rightarrow> segment list" where
  \<comment> \<open>the non-empty parts of a line, each with its measured width\<close>
  "lineSegments measureText rawLine =
     map (\<lambda>part. \<lparr>seg_text = part, seg_width = measureText part\<rparr>)
       (filter (\<lambda>part. part \<noteq> []) (splitParts False [] rawLine))"

fun pack :: "real \<Rightarrow> segment list \<Rightarrow> segment list \<Rightarrow> real \<Rightarrow> line list" where
  \<comment> \<open>the loop over the segments of one line: \<open>pack maxWidth segs currentLine currentWidth\<close>
      gives the lines pushed from here on, the last one after the loop\<close>
  "pack maxWidth [] currentLine currentWidth =
     (if length currentLine > 0
      then [\<lparr>line_segments = currentLine, line_width = currentWidth\<rparr>] else [])"
| "pack maxWidth (seg # segs) currentLine currentWidth =
     (if seg_text seg = [CHR 0x0A] then pack maxWidth segs currentLine currentWidth
      else if currentWidth + seg_width seg > maxWidth \<and> length (trim (seg_text seg)) > 0
      then \<lparr>line_segments = currentLine, line_width = currentWidth\<rparr>
             # pack maxWidth segs [seg] (0 + seg_width seg)
      else pack maxWidth segs (currentLine @ [seg]) (currentWidth + seg_width seg))"

definition wrapLine :: "(string \<Rightarrow> real) \<Rightarrow> real \<Rightarrow> string \<Rightarrow> line list" where
  \<comment> \<open>the body of \<open>rawLines.forEach\<close>: what one hard line adds to \<open>finalLines\<close>\<close>
  "wrapLine measureText maxWidth rawLine =
     (if rawLine = [] then [\<lparr>line_segments = [], line_width = 0\<rparr>]
      else pack maxWidth (lineSegments measureText rawLine) [] 0)"

definition layout :: "(string \<Rightarrow> real) \<Rightarrow> string \<Rightarrow> real \<Rightarrow> line list" where
  "layout measureText scr maxWidth =
     concat (map (wrapLine measureText maxWidth) (splitLines (sanitize scr)))"

definition maxWidth_of :: "VideoConfig \<Rightarrow> real" where
  "maxWidth_of cfg = CANVAS_WIDTH cfg - PADDING_X cfg * 2"

definition lines :: "(string \<Rightarrow> real) option \<Rightarrow> VideoConfig \<Rightarrow> line list" where
  \<comment> \<open>the memoised \<open>lines\<close>; \<open>ctx\<close> is the 2D context of the measuring canvas with the
      configured font set, \<open>None\<close> when \<open>getContext\<close> returned \<open>null\<close>\<close>
  "lines ctx cfg =
     (case ctx of None \<Rightarrow> []
      | Some measureText \<Rightarrow> layout measureText (script cfg) (maxWidth_of cfg))"

definition totalTextHeight :: "line list \<Rightarrow> VideoConfig \<Rightarrow> real" where
  "totalTextHeight ls cfg = real (length ls) * (fontSize cfg * lineHeight cfg)"

text \<open>
  Vocabulary for the properties of the layout: the total width of a list of segments, a
  whitespace segment (the test of the line-break condition, negated), and a line without
  its trailing whitespace segments.
\<close>

definition segsWidth :: "segment list \<Rightarrow> real" where
  "segsWidth segs = sum_list (map seg_width segs)"

definition isWs :: "segment \<Rightarrow> bool" where
  "isWs seg = (length (trim (seg_text seg)) = 0)"

definition coreSegments :: "segment list \<Rightarrow> segment list" where
  "coreSegments segs = rev (dropWhile isWs (rev segs))"

definition fitsOrSingle :: "real \<Rightarrow> line \<Rightarrow> bool" where
  \<comment> \<open>the line is within \<open>maxWidth\<close>, or it is a single token wider than \<open>maxWidth\<close>\<close>
  "fitsOrSingle maxWidth l =
     (segsWidth (line_segments l) \<le> maxWidth
      \<or> (length (line_segments l) = 1 \<and> maxWidth < segsWidth (line_segments l)))"

definition lineOk :: "real \<Rightarrow> line \<Rightarrow> bool" where
  \<comment> \<open>the invariant of the packing loop\<close>
  "lineOk maxWidth l =
     (line_width l = segsWidth (line_segments l) \<and>
      (segsWidth (coreSegments (line_segments l)) \<le> maxWidth
       \<or> length (coreSegments (line_segments l)) \<le> 1))"

subsection \<open>Scroll speed and duration\<close>

definition calculatedAutoSpeed :: "VideoConfig \<Rightarrow> line list \<Rightarrow> real \<Rightarrow> real option" where
  "calculatedAutoSpeed cfg ls audioDuration =
     (if autoScrollSpeed cfg \<and> audioDuration > 0
      then (let totalDistance = totalTextHeight ls cfg + CANVAS_HEIGHT cfg
            in map_option (\<lambda>speed. max speed 10) (js_div totalDistance audioDuration))
      else Some (scrollSpeed cfg))"

definition effectiveScrollSpeed :: "VideoConfig \<Rightarrow> line list \<Rightarrow> real \<Rightarrow> real option" where
  "effectiveScrollSpeed cfg ls audioDuration =
     (if autoScrollSpeed cfg then calculatedAutoSpeed cfg ls audioDuration
      else Some (scrollSpeed cfg))"

definition visualDuration :: "VideoConfig \<Rightarrow> line list \<Rightarrow> real \<Rightarrow> real option" where
  "visualDuration cfg ls audioDuration =
     (let totalDistance = totalTextHeight ls cfg + CANVAS_HEIGHT cfg
      in Option.bind (effectiveScrollSpeed cfg ls audioDuration)
           (\<lambda>speed. js_div totalDistance (if truthy_num speed then speed else 50)))"

definition maxDuration :: "VideoConfig \<Rightarrow> line list \<Rightarrow> real \<Rightarrow> real option" where
  "maxDuration cfg ls audioDuration =
     (if truthy_str (audioUrl cfg) \<and> audioDuration > 0 then Some audioDuration
      else visualDuration cfg ls audioDuration)"

subsection \<open>Ticker\<close>

definition tickerDraws :: "(string \<Rightarrow> real) \<Rightarrow> VideoConfig \<Rightarrow> real \<Rightarrow> real list option" where
  \<comment> \<open>the ticker block of \<open>renderFrame\<close>: the x positions of its three \<open>fillText\<close> calls,
      in order (text alignment is left, so a copy drawn at \<open>x\<close> spans \<open>x\<close> to
      \<open>x + textWidth\<close>); no call without ticker text. \<open>measureTicker\<close> is \<open>measureText\<close>
      under the ticker font.\<close>
  "tickerDraws measureTicker cfg time =
     (case tickerText cfg of
        None \<Rightarrow> Some []
      | Some txt \<Rightarrow>
          if txt = [] then Some []
          else (let textWidth = measureTicker txt;
                    gap = 300;
                    loopWidth = textWidth + gap
                in map_option
                     (\<lambda>shift. let startX = CANVAS_WIDTH cfg - shift
                              in [startX, startX + loopWidth, startX - loopWidth])
                     (js_rem (time * tickerSpeed cfg) loopWidth)))"

definition textAt :: "real \<Rightarrow> real \<Rightarrow> real \<Rightarrow> bool" where
  \<comment> \<open>a copy of the text drawn at \<open>s\<close> covers the abscissa \<open>x\<close>\<close>
  "textAt textWidth s x = (s \<le> x \<and> x \<le> s + textWidth)"

definition drawnCovers :: "real list \<Rightarrow> real \<Rightarrow> real \<Rightarrow> bool" where
  "drawnCovers xs textWidth x = list_ex (\<lambda>s. textAt textWidth s x) xs"

definition loopCopy :: "real \<Rightarrow> real \<Rightarrow> int \<Rightarrow> real" where
  \<comment> \<open>where the \<open>k\<close>-th copy of the endlessly repeated ticker starts\<close>
  "loopCopy startX loopWidth k = startX + of_int k * loopWidth"

subsection \<open>Audio graph\<close>

record GainNode =
  gain_value :: real
  automation :: "(real \<times> real \<times> real) list"
    \<comment> \<open>the calls of \<open>setTargetAtTime\<close>: target, start time, time constant\<close>

definition setTargetAtTime :: "real \<Rightarrow> real \<Rightarrow> real \<Rightarrow> GainNode \<Rightarrow> GainNode" where
  "setTargetAtTime target startTime timeConstant node =
     node\<lparr>automation := automation node @ [(target, startTime, timeConstant)]\<rparr>"

record AudioGraph =
  audioContextRef :: "real option"  \<comment> \<open>the context, by its \<open>currentTime\<close>; \<open>None\<close> is \<open>null\<close>\<close>
  mainAudioGainNodeRef :: "GainNode option"
  monitorGainNodeRef :: "GainNode option"
  bgMusicGainNodeRef :: "GainNode option"
  bgMusicMonitorGainNodeRef :: "GainNode option"

definition volumeControlEffect :: "VideoConfig \<Rightarrow> AudioGraph \<Rightarrow> AudioGraph" where
  "volumeControlEffect cfg g =
     g\<lparr>bgMusicGainNodeRef :=
          map_option (\<lambda>n. n\<lparr>gain_value := bgMusicVolume cfg\<rparr>) (bgMusicGainNodeRef g),
       bgMusicMonitorGainNodeRef :=
          map_option (\<lambda>n. n\<lparr>gain_value := bgMusicVolume cfg\<rparr>) (bgMusicMonitorGainNodeRef g),
       mainAudioGainNodeRef :=
          map_option (\<lambda>n. n\<lparr>gain_value := (case mainAudioVolume cfg of None \<Rightarrow> 1.0 | Some v \<Rightarrow> v)\<rparr>)
            (mainAudioGainNodeRef g)\<rparr>"

definition muteMonitorEffect :: "VideoConfig \<Rightarrow> bool \<Rightarrow> AudioGraph \<Rightarrow> AudioGraph" where
  \<comment> \<open>the effect on \<open>isExporting\<close>, \<open>muteOnExport\<close> and \<open>bgMusicVolume\<close>\<close>
  "muteMonitorEffect cfg isExporting g =
     (case audioContextRef g of
        None \<Rightarrow> g
      | Some ctxTime \<Rightarrow>
          (let shouldMute = (isExporting \<and> muteOnExport cfg);
               targetGain = (if shouldMute then 0 else 0.95);
               rampTime = 0.1;
               bgTarget = (if shouldMute then 0 else bgMusicVolume cfg)
           in g\<lparr>monitorGainNodeRef :=
                   map_option (setTargetAtTime targetGain ctxTime rampTime) (monitorGainNodeRef g),
                 bgMusicMonitorGainNodeRef :=
                   map_option (setTargetAtTime bgTarget ctxTime rampTime)
                     (bgMusicMonitorGainNodeRef g)\<rparr>))"

subsection \<open>Player state, playback and export\<close>

datatype RecorderState = Inactive | Recording | Paused

datatype PlayOutcome = Resolved | Rejected
  \<comment> \<open>how the promise returned by \<open>play()\<close> settles\<close>

record AudioElement =
  ae_currentTime :: real
  ae_duration :: "real option"  \<comment> \<open>\<open>None\<close>: not a finite number\<close>
  ae_paused :: bool
  ae_ended :: bool

record PlayerState =
  isPlaying :: bool
  isExporting :: bool
  currentTime :: real
  isAudioReady :: bool
  audioError :: bool
  lastTimeRef :: real  \<comment> \<open>milliseconds, a value of \<open>performance.now()\<close>\<close>
  currentTimeRef :: real  \<comment> \<open>seconds: the time accumulator\<close>
  audioRef :: "AudioElement option"
  bgMusicRef :: "AudioElement option"
  mediaRecorderRef :: "RecorderState option"
  fallbackTimer :: bool  \<comment> \<open>the safety timeout of \<open>startRecording\<close> is pending\<close>
  frames :: "real list"  \<comment> \<open>the calls of \<open>renderFrame\<close> from the export loop, by their time\<close>
  consoleErrors :: "string list"
  alerts :: "string list"

definition playElement :: "PlayOutcome \<Rightarrow> AudioElement option \<Rightarrow> AudioElement option" where
  \<comment> \<open>\<open>play()\<close> on an element: it plays when the promise resolves\<close>
  "playElement outcome el =
     (case outcome of Resolved \<Rightarrow> map_option (\<lambda>a. a\<lparr>ae_paused := False\<rparr>) el | Rejected \<Rightarrow> el)"


definition rewindElement :: "AudioElement option \<Rightarrow> AudioElement option" where
  \<comment> \<open>\<open>currentTime = 0; pause()\<close>\<close>
  "rewindElement el = map_option (\<lambda>a. a\<lparr>ae_currentTime := 0, ae_paused := True\<rparr>) el"


definition handleExport :: "PlayerState \<Rightarrow> PlayerState" where
  \<comment> \<open>up to the timer that calls \<open>startRecording\<close> 300 ms later\<close>
  "handleExport st =
     (if isExporting st then st
      else st\<lparr>isExporting := True, currentTime := 0, currentTimeRef := 0,
              audioRef := rewindElement (audioRef st),
              bgMusicRef := rewindElement (bgMusicRef st)\<rparr>)"

definition startRecording ::
  "VideoConfig \<Rightarrow> real \<Rightarrow> PlayOutcome \<Rightarrow> PlayOutcome \<Rightarrow> bool \<Rightarrow> bool \<Rightarrow> PlayerState \<Rightarrow> PlayerState" where
  \<comment> \<open>\<open>canvasPresent\<close>: \<open>canvasRef.current\<close> is not null; \<open>recorderCreated\<close>: the constructor
      of \<open>MediaRecorder\<close> did not throw. A rejected \<open>play()\<close> is swallowed by the empty
      \<open>catch\<close> around \<open>Promise.all\<close>.\<close>
  "startRecording cfg now mainPlay bgPlay canvasPresent recorderCreated st =
     (let st1 = (if truthy_str (audioUrl cfg) \<and> audioRef st \<noteq> None \<and> \<not> audioError st
                 then st\<lparr>audioRef := playElement mainPlay (audioRef st)\<rparr> else st);
          st2 = (if truthy_str (bgMusicUrl cfg) \<and> bgMusicRef st1 \<noteq> None
                 then st1\<lparr>bgMusicRef := playElement bgPlay (bgMusicRef st1)\<rparr> else st1);
          st3 = st2\<lparr>isPlaying := True, lastTimeRef := now\<rparr>
      in if \<not> canvasPresent then st3
         else if \<not> recorderCreated
         then st3\<lparr>alerts := alerts st3 @ [''Recording failed. Try Chrome or Edge.''],
                  isExporting := False, isPlaying := False\<rparr>
         else st3\<lparr>mediaRecorderRef := Some Recording,
                  fallbackTimer := (fallbackTimer st3
                                    \<or> \<not> truthy_str (audioUrl cfg) \<or> audioError st3)\<rparr>)"

definition finishExport :: "PlayerState \<Rightarrow> PlayerState" where
  \<comment> \<open>\<open>stop()\<close> moves the recorder to \<open>inactive\<close>\<close>
  "finishExport st =
     (case mediaRecorderRef st of
        Some Recording \<Rightarrow> st\<lparr>mediaRecorderRef := Some Inactive\<rparr>
      | _ \<Rightarrow> st)"

definition audioEnded :: "PlayerState \<Rightarrow> bool" where
  \<comment> \<open>\<open>audioRef.current?.ended\<close>\<close>
  "audioEnded st = (case audioRef st of None \<Rightarrow> False | Some a \<Rightarrow> ae_ended a)"

definition workerOnMessage :: "VideoConfig \<Rightarrow> real \<Rightarrow> real \<Rightarrow> PlayerState \<Rightarrow> PlayerState" where
  \<comment> \<open>one tick of the export loop; \<open>maxDur\<close> is the \<open>maxDuration\<close> of the render that
      installed the handler, \<open>now\<close> is \<open>performance.now()\<close>\<close>
  "workerOnMessage cfg maxDur now st =
     (let delta = (now - lastTimeRef st) / 1000;
          t = currentTimeRef st + delta;
          st1 = st\<lparr>lastTimeRef := now, currentTimeRef := t,
                   frames := frames st @ [t], currentTime := t\<rparr>;
          isEnded = ((truthy_str (audioUrl cfg) \<and> audioEnded st1)
                     \<or> currentTimeRef st1 \<ge> maxDur + 0.5)
      in if isEnded then finishExport st1 else st1)"

datatype ExportEvent =
    WorkerTick real  \<comment> \<open>a message of the worker, received at this \<open>performance.now()\<close>\<close>
  | CancelClick  \<comment> \<open>the button "Cancel Export"\<close>
  | FallbackTimeout  \<comment> \<open>the safety timeout of \<open>startRecording\<close> fires\<close>

definition exportStep :: "VideoConfig \<Rightarrow> real \<Rightarrow> ExportEvent \<Rightarrow> PlayerState \<Rightarrow> PlayerState" where
  "exportStep cfg maxDur ev st =
     (case ev of
        WorkerTick now \<Rightarrow> workerOnMessage cfg maxDur now st
      | CancelClick \<Rightarrow> finishExport st
      | FallbackTimeout \<Rightarrow>
          (if fallbackTimer st then finishExport (st\<lparr>fallbackTimer := False\<rparr>) else st))"

definition finishes :: "PlayerState \<Rightarrow> PlayerState \<Rightarrow> bool" where
  \<comment> \<open>the step from \<open>st\<close> to \<open>st'\<close> stopped the running recorder\<close>
  "finishes st st' =
     (mediaRecorderRef st = Some Recording \<and> mediaRecorderRef st' = Some Inactive)"

subsection \<open>Sample inputs\<close>

definition charWidth10 :: "string \<Rightarrow> real" where
  \<comment> \<open>a sample font: every character is 10 pixels wide\<close>
  "charWidth10 s = 10 * real (length s)"

definition sampleConfig :: VideoConfig where
  "sampleConfig =
     \<lparr>aspectRatio = R16_9, script = ''Hello'' @ [CHR 0x0A] @ ''World'', fontSize = 48,
      lineHeight = 1.5, scrollSpeed = 50, autoScrollSpeed = False, audioUrl = None,
      bgMusicUrl = None, mainAudioVolume = None, bgMusicVolume = 0.5, muteOnExport = True,
      tickerText = Some ''Subscribe!'', tickerSpeed = 100, fps = 30\<rparr>"

definition charWidth100 :: "string \<Rightarrow> real" where
  \<comment> \<open>a sample title font: every character is 100 pixels wide\<close>
  "charWidth100 s = 100 * real (length s)"

definition wideConfig :: VideoConfig where
  \<comment> \<open>a word of 17 characters, a space and a letter, on the 1920 pixel canvas\<close>
  "wideConfig = sampleConfig\<lparr>script := ''aaaaaaaaaaaaaaaaa b''\<rparr>"

definition blankLines :: "nat \<Rightarrow> line list" where
  "blankLines n = replicate n \<lparr>line_segments = [], line_width = 0\<rparr>"

definition scenario2Config :: VideoConfig where
  \<comment> \<open>auto speed with a primary audio track; 25 lines are 2000 pixels high\<close>
  "scenario2Config =
     sampleConfig\<lparr>fontSize := 40, lineHeight := 2, autoScrollSpeed := True,
                  audioUrl := Some ''blob:voice''\<rparr>"

definition durationTimesSpeed :: "VideoConfig \<Rightarrow> line list \<Rightarrow> real \<Rightarrow> real option" where
  \<comment> \<open>\<open>maxDuration \<times> effectiveScrollSpeed\<close>, for the properties\<close>
  "durationTimesSpeed cfg ls audioDuration =
     (case (maxDuration cfg ls audioDuration, effectiveScrollSpeed cfg ls audioDuration) of
        (Some d, Some speed) \<Rightarrow> Some (d * speed)
      | _ \<Rightarrow> None)"

definition sampleGraph :: AudioGraph where
  "sampleGraph =
     \<lparr>audioContextRef = Some 5,
      mainAudioGainNodeRef = Some \<lparr>gain_value = 1, automation = []\<rparr>,
      monitorGainNodeRef = Some \<lparr>gain_value = 0.95, automation = []\<rparr>,
      bgMusicGainNodeRef = Some \<lparr>gain_value = 0.5, automation = []\<rparr>,
      bgMusicMonitorGainNodeRef = Some \<lparr>gain_value = 0.5, automation = []\<rparr>\<rparr>"

definition idleState :: PlayerState where
  \<comment> \<open>the player after mounting, no audio loaded\<close>
  "idleState =
     \<lparr>isPlaying = False, isExporting = False, currentTime = 0, isAudioReady = False,
      audioError = False, lastTimeRef = 0, currentTimeRef = 0,
      audioRef = Some \<lparr>ae_currentTime = 0, ae_duration = None, ae_paused = True,
                        ae_ended = False\<rparr>,
      bgMusicRef = Some \<lparr>ae_currentTime = 0, ae_duration = None, ae_paused = True,
                          ae_ended = False\<rparr>,
      mediaRecorderRef = None, fallbackTimer = False, frames = [], consoleErrors = [],
      alerts = []\<rparr>"


definition recordingState :: PlayerState where
  \<comment> \<open>an export of the sample configuration, started and recording\<close>
  "recordingState =
     startRecording sampleConfig 600 Resolved Resolved True True (handleExport idleState)"

text \<open>Vocabulary for the properties of the export loop.\<close>

definition claimedFinish :: "VideoConfig \<Rightarrow> real \<Rightarrow> ExportEvent \<Rightarrow> PlayerState \<Rightarrow> bool" where
  \<comment> \<open>the three conditions for the end of an export, on the state after the step\<close>
  "claimedFinish cfg maxDur ev st' =
     ((truthy_str (audioUrl cfg) \<and> audioEnded st') \<or> currentTimeRef st' \<ge> maxDur + 0.5
      \<or> ev = CancelClick)"

definition seekAudio :: "real \<Rightarrow> PlayerState \<Rightarrow> PlayerState" where
  \<comment> \<open>the primary audio element reports another playback position\<close>
  "seekAudio t st = st\<lparr>audioRef := map_option (\<lambda>a. a\<lparr>ae_currentTime := t\<rparr>) (audioRef st)\<rparr>"

section \<open>Properties of the text layout\<close>

subsection \<open>The packing loop keeps its invariant\<close>

lemma coreSegments_snoc_ws: "isWs seg \<Longrightarrow> coreSegments (cur @ [seg]) = coreSegments cur"
  by (simp add: coreSegments_def)

lemma coreSegments_snoc_text: "\<not> isWs seg \<Longrightarrow> coreSegments (cur @ [seg]) = cur @ [seg]"
  by (simp add: coreSegments_def)

lemma segsWidth_snoc: "segsWidth (cur @ [seg]) = segsWidth cur + seg_width seg"
  by (simp add: segsWidth_def)

lemma length_coreSegments_single: "length (coreSegments [seg]) \<le> 1"
  by (simp add: coreSegments_def)

lemma pack_lineOk:
  "lineOk maxWidth \<lparr>line_segments = cur, line_width = w\<rparr>
   \<Longrightarrow> l \<in> set (pack maxWidth segs cur w) \<Longrightarrow> lineOk maxWidth l"
proof (induction segs arbitrary: cur w)
  case Nil
  then show ?case by (simp split: if_splits)
next
  case (Cons seg segs)
  have cw: "w = segsWidth cur"
    using Cons.prems(1) by (simp add: lineOk_def)
  show ?case
  proof (cases "seg_text seg = [CHR 0x0A]")
    case True
    with Cons show ?thesis by simp
  next
    case nl: False
    show ?thesis
    proof (cases "w + seg_width seg > maxWidth \<and> length (trim (seg_text seg)) > 0")
      case True
      have single: "lineOk maxWidth \<lparr>line_segments = [seg], line_width = 0 + seg_width seg\<rparr>"
        using length_coreSegments_single [of seg] by (simp add: lineOk_def segsWidth_def)
      from True nl Cons.prems(2)
      have "l = \<lparr>line_segments = cur, line_width = w\<rparr>
            \<or> l \<in> set (pack maxWidth segs [seg] (0 + seg_width seg))"
        by simp
      then show ?thesis
        using Cons.prems(1) Cons.IH [OF single] by blast
    next
      case False
      have ok: "lineOk maxWidth \<lparr>line_segments = cur @ [seg], line_width = w + seg_width seg\<rparr>"
      proof (cases "isWs seg")
        case True
        then show ?thesis
          using Cons.prems(1)
          by (simp add: lineOk_def coreSegments_snoc_ws segsWidth_snoc)
      next
        case notws: False
        then have "length (trim (seg_text seg)) > 0" by (simp add: isWs_def)
        with False have "w + seg_width seg \<le> maxWidth" by simp
        then show ?thesis
          using notws cw by (simp add: lineOk_def coreSegments_snoc_text segsWidth_snoc)
      qed
      from False nl Cons.prems(2)
      have "l \<in> set (pack maxWidth segs (cur @ [seg]) (w + seg_width seg))"
        by auto
      then show ?thesis using Cons.IH [OF ok] by blast
    qed
  qed
qed

lemma lineOk_empty: "lineOk maxWidth \<lparr>line_segments = [], line_width = 0\<rparr>"
  by (simp add: lineOk_def segsWidth_def coreSegments_def)

lemma wrapLine_lineOk: "l \<in> set (wrapLine m maxWidth rawLine) \<Longrightarrow> lineOk maxWidth l"
  using pack_lineOk [OF lineOk_empty] lineOk_empty
  by (auto simp: wrapLine_def split: if_splits)

lemma layout_lineOk: "l \<in> set (layout m scr maxWidth) \<Longrightarrow> lineOk maxWidth l"
  by (auto simp: layout_def dest: wrapLine_lineOk)

lemma wide_maxWidth: "maxWidth_of wideConfig = 1728"
  by (simp add: maxWidth_of_def CANVAS_WIDTH_def PADDING_X_def wideConfig_def sampleConfig_def)

lemma wide_layout:
  "layout charWidth100 ''aaaaaaaaaaaaaaaaa b'' 1728 =
     [\<lparr>line_segments = [\<lparr>seg_text = ''aaaaaaaaaaaaaaaaa'', seg_width = 1700\<rparr>,
                        \<lparr>seg_text = '' '', seg_width = 100\<rparr>],
       line_width = 1800\<rparr>,
      \<lparr>line_segments = [\<lparr>seg_text = ''b'', seg_width = 100\<rparr>], line_width = 100\<rparr>]"
  by (simp add: layout_def sanitize_def wrapLine_def lineSegments_def isSpace_def trim_def
      charWidth100_def)

lemma wide_lines:
  "lines (Some charWidth100) wideConfig = layout charWidth100 ''aaaaaaaaaaaaaaaaa b'' 1728"
proof -
  have "script wideConfig = ''aaaaaaaaaaaaaaaaa b''"
    by (simp add: wideConfig_def)
  then show ?thesis
    by (simp add: lines_def wide_maxWidth)
qed

subsection \<open>Width of the wrapped lines\<close>

text \<open>
  C1, as stated, fails: the line break is forced only before a token that is not
  whitespace, so a whitespace token is appended to the line whatever its width. On the
  1920 pixel canvas (\<open>maxWidth = 1728\<close>) with characters of 100 pixels, a word of 17
  characters followed by a space and a letter gives a first line of two tokens, the word
  and the space, of width 1800.
\<close>

theorem layout_overflow_counterexample:
  "\<not> list_all (fitsOrSingle (maxWidth_of wideConfig)) (lines (Some charWidth100) wideConfig)"
  by (simp add: wide_lines wide_layout wide_maxWidth fitsOrSingle_def segsWidth_def)

text \<open>
  C1, amended: for every script, font (measuring function) and \<open>maxWidth\<close>, the width
  recorded for a wrapped line is the sum of the widths of its segments, and the line
  without its trailing whitespace segments is at most \<open>maxWidth\<close> wide, except when what
  is left is a single token wider than \<open>maxWidth\<close> on its own (or nothing is left and
  \<open>maxWidth\<close> is negative).
\<close>

theorem layout_line_within_maxWidth:
  assumes "l \<in> set (layout measureText scr maxWidth)"
  shows "line_width l = segsWidth (line_segments l)
         \<and> (segsWidth (coreSegments (line_segments l)) \<le> maxWidth
            \<or> (\<exists>seg. coreSegments (line_segments l) = [seg] \<and> maxWidth < seg_width seg)
            \<or> (coreSegments (line_segments l) = [] \<and> maxWidth < 0))"
proof -
  let ?c = "coreSegments (line_segments l)"
  from layout_lineOk [OF assms]
  have w: "line_width l = segsWidth (line_segments l)"
    and c: "segsWidth ?c \<le> maxWidth \<or> length ?c \<le> 1"
    by (simp_all add: lineOk_def)
  show ?thesis
  proof (cases "segsWidth ?c \<le> maxWidth")
    case True
    with w show ?thesis by simp
  next
    case False
    with c have len: "length ?c \<le> 1" by simp
    show ?thesis
    proof (cases ?c)
      case Nil
      with False w show ?thesis by (simp add: segsWidth_def)
    next
      case (Cons seg rest)
      with len have "?c = [seg]" by simp
      with False w show ?thesis by (simp add: segsWidth_def)
    qed
  qed
qed

text \<open>
  The amended C1 at the first line of the sample above: the word alone is 1700 wide.
\<close>

theorem layout_line_within_maxWidth_witness:
  "\<lparr>line_segments = [\<lparr>seg_text = ''aaaaaaaaaaaaaaaaa'', seg_width = 1700\<rparr>,
                     \<lparr>seg_text = '' '', seg_width = 100\<rparr>],
     line_width = 1800\<rparr> \<in> set (layout charWidth100 ''aaaaaaaaaaaaaaaaa b'' 1728)
   \<and> segsWidth (coreSegments
        [\<lparr>seg_text = ''aaaaaaaaaaaaaaaaa'', seg_width = 1700\<rparr>,
         \<lparr>seg_text = '' '', seg_width = 100\<rparr>]) \<le> 1728"
proof -
  let ?l = "\<lparr>line_segments = [\<lparr>seg_text = ''aaaaaaaaaaaaaaaaa'', seg_width = 1700\<rparr>,
                              \<lparr>seg_text = '' '', seg_width = 100\<rparr>],
             line_width = 1800\<rparr>"
  have mem: "?l \<in> set (layout charWidth100 ''aaaaaaaaaaaaaaaaa b'' 1728)"
    by (simp add: wide_layout)
  from layout_line_within_maxWidth [OF mem]
  have "segsWidth (coreSegments (line_segments ?l)) \<le> 1728
        \<or> (\<exists>seg. coreSegments (line_segments ?l) = [seg] \<and> 1728 < seg_width seg)
        \<or> (coreSegments (line_segments ?l) = [] \<and> (1728::real) < 0)"
    by simp
  then have "segsWidth (coreSegments (line_segments ?l)) \<le> 1728"
    by (simp add: coreSegments_def isWs_def trim_def isSpace_def)
  with mem show ?thesis by simp
qed

subsection \<open>The layout is never empty\<close>

lemma splitLines_not_Nil: "splitLines s \<noteq> []"
  by (induction s) (auto split: list.splits)

lemma splitLines_no_newline: "l \<in> set (splitLines s) \<Longrightarrow> CHR 0x0A \<notin> set l"
  by (induction s arbitrary: l) (auto split: if_splits list.splits)

lemma concat_splitParts: "concat (splitParts inWs cur s) = cur @ s"
  by (induction s arbitrary: inWs cur) auto

lemma splitParts_chars:
  assumes "part \<in> set (splitParts inWs cur s)"
  shows "set part \<subseteq> set cur \<union> set s"
proof -
  from assms have "set part \<subseteq> set (concat (splitParts inWs cur s))"
    by auto
  then show ?thesis by (simp add: concat_splitParts)
qed

lemma lineSegments_not_Nil:
  assumes "rawLine \<noteq> []"
  shows "lineSegments m rawLine \<noteq> []"
proof
  assume "lineSegments m rawLine = []"
  then have "\<forall>part \<in> set (splitParts False [] rawLine). part = []"
    by (auto simp: lineSegments_def filter_empty_conv)
  then have "concat (splitParts False [] rawLine) = []"
    by simp
  with assms show False by (simp add: concat_splitParts)
qed

lemma lineSegments_no_newline:
  assumes "CHR 0x0A \<notin> set rawLine" and "seg \<in> set (lineSegments m rawLine)"
  shows "seg_text seg \<noteq> [CHR 0x0A]"
proof -
  from assms(2) have "seg_text seg \<in> set (splitParts False [] rawLine)"
    by (auto simp: lineSegments_def)
  then have "set (seg_text seg) \<subseteq> set rawLine"
    using splitParts_chars by fastforce
  with assms(1) show ?thesis by auto
qed

lemma pack_not_Nil:
  "\<forall>seg \<in> set segs. seg_text seg \<noteq> [CHR 0x0A] \<Longrightarrow> segs \<noteq> [] \<or> cur \<noteq> []
   \<Longrightarrow> pack maxWidth segs cur w \<noteq> []"
  by (induction segs arbitrary: cur w) auto

lemma wrapLine_not_Nil:
  assumes "CHR 0x0A \<notin> set rawLine"
  shows "wrapLine m maxWidth rawLine \<noteq> []"
proof (cases "rawLine = []")
  case True
  then show ?thesis by (simp add: wrapLine_def)
next
  case False
  have "pack maxWidth (lineSegments m rawLine) [] 0 \<noteq> []"
    using lineSegments_no_newline [OF assms] lineSegments_not_Nil [OF False]
    by (intro pack_not_Nil) auto
  with False show ?thesis by (simp add: wrapLine_def)
qed

lemma layout_not_Nil: "layout m scr maxWidth \<noteq> []"
proof -
  obtain l ls where sl: "splitLines (sanitize scr) = l # ls"
    using splitLines_not_Nil by (cases "splitLines (sanitize scr)") auto
  then have "l \<in> set (splitLines (sanitize scr))" by simp
  then have "wrapLine m maxWidth l \<noteq> []"
    by (intro wrapLine_not_Nil splitLines_no_newline)
  with sl show ?thesis by (simp add: layout_def)
qed

lemma layout_empty_script: "layout m [] maxWidth = [\<lparr>line_segments = [], line_width = 0\<rparr>]"
  by (simp add: layout_def sanitize_def wrapLine_def)

lemma sample_lines:
  "lines (Some charWidth10) sampleConfig =
     [\<lparr>line_segments = [\<lparr>seg_text = ''Hello'', seg_width = 50\<rparr>], line_width = 50\<rparr>,
      \<lparr>line_segments = [\<lparr>seg_text = ''World'', seg_width = 50\<rparr>], line_width = 50\<rparr>]"
  by (simp add: lines_def layout_def sanitize_def wrapLine_def lineSegments_def isSpace_def
      trim_def charWidth10_def sampleConfig_def maxWidth_of_def CANVAS_WIDTH_def PADDING_X_def)

lemma lines_ignores_font_metrics:
  "lines ctx (cfg\<lparr>fontSize := v\<rparr>) = lines ctx cfg"
  "lines ctx (cfg\<lparr>lineHeight := v\<rparr>) = lines ctx cfg"
  by (simp_all add: lines_def maxWidth_of_def CANVAS_WIDTH_def PADDING_X_def split: option.split)

text \<open>
  C9, as stated, fails. Without a measuring context (\<open>getContext\<close> returned \<open>null\<close>) the
  layout has no line at all and the total text height is 0, below the 72 pixels of one
  line of the sample configuration. With a context, the sample script has two lines: at
  the font size 0 the total text height is 0, and at the line height \<open>-1.5\<close> it is
  \<open>-144\<close>, below \<open>fontSize \<times> lineHeight = -72\<close>.
\<close>

theorem lines_at_least_one_counterexample:
  "\<not> 1 \<le> length (lines None sampleConfig)
   \<and> totalTextHeight (lines None sampleConfig) sampleConfig = 0
   \<and> \<not> fontSize sampleConfig * lineHeight sampleConfig
         \<le> totalTextHeight (lines None sampleConfig) sampleConfig
   \<and> totalTextHeight (lines (Some charWidth10) (sampleConfig\<lparr>fontSize := 0\<rparr>))
         (sampleConfig\<lparr>fontSize := 0\<rparr>) = 0
   \<and> totalTextHeight (lines (Some charWidth10) (sampleConfig\<lparr>lineHeight := - 1.5\<rparr>))
         (sampleConfig\<lparr>lineHeight := - 1.5\<rparr>) = - 144
   \<and> fontSize (sampleConfig\<lparr>lineHeight := - 1.5\<rparr>)
         * lineHeight (sampleConfig\<lparr>lineHeight := - 1.5\<rparr>) = - 72"
proof -
  have none: "lines None sampleConfig = []"
    by (simp add: lines_def)
  have two: "length (lines (Some charWidth10) sampleConfig) = 2"
    by (simp add: sample_lines)
  have h: "fontSize sampleConfig = 48" "lineHeight sampleConfig = 1.5"
    by (simp_all add: sampleConfig_def)
  show ?thesis
    using h by (simp add: none two lines_ignores_font_metrics totalTextHeight_def)
qed

text \<open>
  C9, amended: with a measuring context, the empty script is laid out as exactly one line
  with no segment and width 0, and every script is laid out as at least one line; the
  total text height is then at least \<open>fontSize \<times> lineHeight\<close> when that product is not
  negative, and it is not zero when that product is positive. Without a measuring
  context the layout is empty and the total text height is 0.
\<close>

theorem lines_at_least_one:
  "(script cfg = [] \<longrightarrow> lines (Some m) cfg = [\<lparr>line_segments = [], line_width = 0\<rparr>])
   \<and> 1 \<le> length (lines (Some m) cfg)
   \<and> (0 \<le> fontSize cfg * lineHeight cfg \<longrightarrow>
        fontSize cfg * lineHeight cfg \<le> totalTextHeight (lines (Some m) cfg) cfg)
   \<and> (0 < fontSize cfg * lineHeight cfg \<longrightarrow> totalTextHeight (lines (Some m) cfg) cfg \<noteq> 0)
   \<and> lines None cfg = []
   \<and> totalTextHeight (lines None cfg) cfg = 0"
proof -
  let ?ls = "lines (Some m) cfg"
  let ?h = "fontSize cfg * lineHeight cfg"
  have one: "1 \<le> length ?ls"
    using layout_not_Nil [of m "script cfg" "maxWidth_of cfg"]
    by (cases "layout m (script cfg) (maxWidth_of cfg)") (simp_all add: lines_def)
  then have r: "1 \<le> real (length ?ls)" by simp
  have ge: "?h \<le> totalTextHeight ?ls cfg" if "0 \<le> ?h"
  proof -
    from r that have "1 * ?h \<le> real (length ?ls) * ?h"
      by (intro mult_right_mono) simp_all
    then show ?thesis by (simp add: totalTextHeight_def)
  qed
  have nz: "totalTextHeight ?ls cfg \<noteq> 0" if "0 < ?h"
    using ge that by simp
  have none: "lines None cfg = []" "totalTextHeight (lines None cfg) cfg = 0"
    by (simp_all add: lines_def totalTextHeight_def)
  have empty: "script cfg = [] \<longrightarrow> ?ls = [\<lparr>line_segments = [], line_width = 0\<rparr>]"
    by (simp add: lines_def layout_empty_script)
  from empty one ge nz none show ?thesis
    by blast
qed

text \<open>
  The amended C9 at the sample configuration (font size 48, line height 1.5) and at its
  empty script.
\<close>

theorem lines_at_least_one_witness:
  "0 < fontSize sampleConfig * lineHeight sampleConfig
   \<and> script (sampleConfig\<lparr>script := []\<rparr>) = []
   \<and> lines (Some charWidth10) (sampleConfig\<lparr>script := []\<rparr>)
       = [\<lparr>line_segments = [], line_width = 0\<rparr>]
   \<and> totalTextHeight (lines (Some charWidth10) (sampleConfig\<lparr>script := []\<rparr>)) sampleConfig = 72
   \<and> 1 \<le> length (lines (Some charWidth10) sampleConfig)
   \<and> 72 \<le> totalTextHeight (lines (Some charWidth10) sampleConfig) sampleConfig
   \<and> totalTextHeight (lines (Some charWidth10) sampleConfig) sampleConfig \<noteq> 0"
proof -
  have pos: "0 < fontSize sampleConfig * lineHeight sampleConfig"
    and h: "fontSize sampleConfig * lineHeight sampleConfig = 72"
    by (simp_all add: sampleConfig_def)
  from lines_at_least_one [of "sampleConfig\<lparr>script := []\<rparr>" charWidth10]
  have e: "lines (Some charWidth10) (sampleConfig\<lparr>script := []\<rparr>)
             = [\<lparr>line_segments = [], line_width = 0\<rparr>]"
    by simp
  have t: "totalTextHeight [\<lparr>line_segments = [], line_width = 0\<rparr>] sampleConfig = 72"
    by (simp add: totalTextHeight_def sampleConfig_def)
  from lines_at_least_one [of sampleConfig charWidth10] pos h
  have "1 \<le> length (lines (Some charWidth10) sampleConfig)
        \<and> 72 \<le> totalTextHeight (lines (Some charWidth10) sampleConfig) sampleConfig
        \<and> totalTextHeight (lines (Some charWidth10) sampleConfig) sampleConfig \<noteq> 0"
    by simp
  with pos e t show ?thesis by simp
qed

section \<open>Properties of scroll speed and duration\<close>

lemma calculatedAutoSpeed_Some:
  "calculatedAutoSpeed cfg ls ad =
     Some (if autoScrollSpeed cfg \<and> 0 < ad
           then max ((totalTextHeight ls cfg + CANVAS_HEIGHT cfg) / ad) 10
           else scrollSpeed cfg)"
  by (simp add: calculatedAutoSpeed_def js_div_def Let_def)

lemma effectiveScrollSpeed_Some:
  "effectiveScrollSpeed cfg ls ad =
     Some (if autoScrollSpeed cfg \<and> 0 < ad
           then max ((totalTextHeight ls cfg + CANVAS_HEIGHT cfg) / ad) 10
           else scrollSpeed cfg)"
  by (simp add: effectiveScrollSpeed_def calculatedAutoSpeed_Some)

lemma visualDuration_Some:
  "effectiveScrollSpeed cfg ls ad = Some speed \<Longrightarrow>
   visualDuration cfg ls ad =
     Some ((totalTextHeight ls cfg + CANVAS_HEIGHT cfg) / (if speed = 0 then 50 else speed))"
  by (simp add: visualDuration_def js_div_def truthy_num_def Let_def)

lemma sample_distance:
  "totalTextHeight (lines (Some charWidth10) sampleConfig) (sampleConfig\<lparr>scrollSpeed := v\<rparr>)
     + CANVAS_HEIGHT (sampleConfig\<lparr>scrollSpeed := v\<rparr>) = 1224"
proof -
  have "length (lines (Some charWidth10) sampleConfig) = 2"
    by (simp add: sample_lines)
  then have "totalTextHeight (lines (Some charWidth10) sampleConfig)
               (sampleConfig\<lparr>scrollSpeed := v\<rparr>)
             = 2 * (fontSize sampleConfig * lineHeight sampleConfig)"
    by (simp add: totalTextHeight_def)
  then show ?thesis
    by (simp add: CANVAS_HEIGHT_def sampleConfig_def)
qed

text \<open>
  C2: when the audio URL is set and the audio duration \<open>D\<close> is positive, \<open>maxDuration\<close> is
  \<open>D\<close>, whatever the configuration says about the scroll speed.
\<close>

theorem maxDuration_audio:
  "truthy_str (audioUrl cfg) \<Longrightarrow> 0 < D \<Longrightarrow> maxDuration cfg ls D = Some D"
  by (simp add: maxDuration_def)

text \<open>C2 with a 10 second track, once with auto speed and once with the explicit speed 0.\<close>

theorem maxDuration_audio_witness:
  "truthy_str (audioUrl scenario2Config) \<and> (0::real) < 10
   \<and> maxDuration scenario2Config (blankLines 25) 10 = Some 10
   \<and> maxDuration (scenario2Config\<lparr>autoScrollSpeed := False, scrollSpeed := 0\<rparr>) (blankLines 25) 10
       = Some 10"
proof -
  have t: "truthy_str (audioUrl scenario2Config)"
    by (simp add: scenario2Config_def truthy_str_def)
  have t': "truthy_str (audioUrl (scenario2Config\<lparr>autoScrollSpeed := False, scrollSpeed := 0\<rparr>))"
    by (simp add: scenario2Config_def truthy_str_def)
  have p: "(0::real) < 10" by simp
  show ?thesis
    using t p maxDuration_audio [OF t p, of "blankLines 25"]
      maxDuration_audio [OF t' p, of "blankLines 25"]
    by simp
qed

text \<open>
  C6: with auto speed and a positive audio duration the effective scroll speed is
  \<open>max ((totalTextHeight + CANVAS_HEIGHT) / audioDuration) 10\<close>, hence at least 10;
  otherwise it is the configured \<open>scrollSpeed\<close>.
\<close>

theorem effectiveScrollSpeed_auto:
  "(autoScrollSpeed cfg \<and> 0 < audioDuration \<longrightarrow>
      (\<exists>speed. effectiveScrollSpeed cfg ls audioDuration = Some speed
         \<and> speed = max ((totalTextHeight ls cfg + CANVAS_HEIGHT cfg) / audioDuration) 10
         \<and> 10 \<le> speed))
   \<and> (\<not> (autoScrollSpeed cfg \<and> 0 < audioDuration) \<longrightarrow>
        effectiveScrollSpeed cfg ls audioDuration = Some (scrollSpeed cfg))"
  by (simp add: effectiveScrollSpeed_Some)

text \<open>
  C6 on a text 2000 pixels high in a viewport 1080 pixels high: 308 pixels per second for
  10 seconds of audio, the floor 10 for 1000 seconds, and the configured 50 without auto
  speed.
\<close>

theorem effectiveScrollSpeed_auto_witness:
  "autoScrollSpeed scenario2Config \<and> (0::real) < 10
   \<and> totalTextHeight (blankLines 25) scenario2Config = 2000
   \<and> effectiveScrollSpeed scenario2Config (blankLines 25) 10 = Some 308
   \<and> effectiveScrollSpeed scenario2Config (blankLines 25) 1000 = Some 10
   \<and> \<not> (autoScrollSpeed sampleConfig \<and> (0::real) < 10)
   \<and> effectiveScrollSpeed sampleConfig (blankLines 25) 10 = Some 50"
proof -
  have a: "autoScrollSpeed scenario2Config"
    by (simp add: scenario2Config_def)
  have h: "totalTextHeight (blankLines 25) scenario2Config = 2000"
    by (simp add: totalTextHeight_def blankLines_def scenario2Config_def)
  have c: "CANVAS_HEIGHT scenario2Config = 1080"
    by (simp add: CANVAS_HEIGHT_def scenario2Config_def sampleConfig_def)
  have n: "\<not> autoScrollSpeed sampleConfig" "scrollSpeed sampleConfig = 50"
    by (simp_all add: sampleConfig_def)
  show ?thesis
    using a h c n
      effectiveScrollSpeed_auto [of scenario2Config 10 "blankLines 25"]
      effectiveScrollSpeed_auto [of scenario2Config 1000 "blankLines 25"]
      effectiveScrollSpeed_auto [of sampleConfig 10 "blankLines 25"]
    by simp
qed

text \<open>
  C10: no division of the speed and duration computation has a zero divisor, so each of
  its results is a finite number, for every configuration; without a known audio
  duration and with the effective scroll speed 0, \<open>maxDuration\<close> is the total distance
  divided by 50.
\<close>

theorem maxDuration_defined:
  "calculatedAutoSpeed cfg ls audioDuration \<noteq> None
   \<and> effectiveScrollSpeed cfg ls audioDuration \<noteq> None
   \<and> visualDuration cfg ls audioDuration \<noteq> None
   \<and> maxDuration cfg ls audioDuration \<noteq> None
   \<and> (\<not> (truthy_str (audioUrl cfg) \<and> 0 < audioDuration) \<longrightarrow>
        effectiveScrollSpeed cfg ls audioDuration = Some 0 \<longrightarrow>
        maxDuration cfg ls audioDuration
          = Some ((totalTextHeight ls cfg + CANVAS_HEIGHT cfg) / 50))"
proof -
  obtain speed where s: "effectiveScrollSpeed cfg ls audioDuration = Some speed"
    by (simp add: effectiveScrollSpeed_Some)
  note v = visualDuration_Some [OF s]
  show ?thesis
    using s v by (auto simp: calculatedAutoSpeed_Some maxDuration_def)
qed

text \<open>C10 at the sample configuration with scroll speed 0: the duration is 1224 / 50.\<close>

theorem maxDuration_defined_witness:
  "\<not> (truthy_str (audioUrl (sampleConfig\<lparr>scrollSpeed := 0\<rparr>)) \<and> (0::real) < 0)
   \<and> effectiveScrollSpeed (sampleConfig\<lparr>scrollSpeed := 0\<rparr>)
        (lines (Some charWidth10) sampleConfig) 0 = Some 0
   \<and> maxDuration (sampleConfig\<lparr>scrollSpeed := 0\<rparr>) (lines (Some charWidth10) sampleConfig) 0
       = Some (1224 / 50)"
proof -
  let ?c = "sampleConfig\<lparr>scrollSpeed := 0\<rparr>"
  let ?ls = "lines (Some charWidth10) sampleConfig"
  have e: "effectiveScrollSpeed ?c ?ls 0 = Some 0"
    by (simp add: effectiveScrollSpeed_def sampleConfig_def)
  have d: "totalTextHeight ?ls ?c + CANVAS_HEIGHT ?c = 1224"
    by (rule sample_distance)
  show ?thesis
    using e d maxDuration_defined [of ?c ?ls 0] by simp
qed

text \<open>
  C5, as stated, fails at the scroll speed 0, which the code handles by dividing by 50:
  for the sample script without audio the duration is 1224 / 50, its product with the
  effective speed 0 is 0, and the distance is 1224.
\<close>

theorem maxDuration_times_speed_counterexample:
  "\<not> truthy_str (audioUrl (sampleConfig\<lparr>scrollSpeed := 0\<rparr>))
   \<and> durationTimesSpeed (sampleConfig\<lparr>scrollSpeed := 0\<rparr>)
        (lines (Some charWidth10) sampleConfig) 0 = Some 0
   \<and> totalTextHeight (lines (Some charWidth10) sampleConfig) (sampleConfig\<lparr>scrollSpeed := 0\<rparr>)
       + CANVAS_HEIGHT (sampleConfig\<lparr>scrollSpeed := 0\<rparr>) = 1224"
proof -
  let ?c = "sampleConfig\<lparr>scrollSpeed := 0\<rparr>"
  let ?ls = "lines (Some charWidth10) sampleConfig"
  have u: "\<not> truthy_str (audioUrl ?c)"
    by (simp add: truthy_str_def sampleConfig_def)
  have e: "effectiveScrollSpeed ?c ?ls 0 = Some 0"
    by (simp add: effectiveScrollSpeed_def sampleConfig_def)
  have d: "totalTextHeight ?ls ?c + CANVAS_HEIGHT ?c = 1224"
    by (rule sample_distance)
  have "maxDuration ?c ?ls 0 = Some (1224 / 50)"
    using u d visualDuration_Some [OF e] by (simp add: maxDuration_def)
  with e have "durationTimesSpeed ?c ?ls 0 = Some 0"
    by (simp add: durationTimesSpeed_def)
  with u d show ?thesis by simp
qed

text \<open>
  C5, amended: for every configuration without a loaded primary audio track (no audio URL
  or no positive audio duration) whose effective scroll speed is not 0, \<open>maxDuration\<close>
  multiplied by the effective scroll speed is \<open>totalTextHeight + CANVAS_HEIGHT\<close>, exactly;
  at the effective scroll speed 0, \<open>maxDuration\<close> is that distance divided by 50 and the
  product is 0.
\<close>

theorem maxDuration_times_speed:
  assumes "\<not> (truthy_str (audioUrl cfg) \<and> 0 < audioDuration)"
    and "effectiveScrollSpeed cfg ls audioDuration = Some speed"
  shows "(speed \<noteq> 0 \<longrightarrow>
            durationTimesSpeed cfg ls audioDuration
              = Some (totalTextHeight ls cfg + CANVAS_HEIGHT cfg))
         \<and> (speed = 0 \<longrightarrow>
              maxDuration cfg ls audioDuration
                = Some ((totalTextHeight ls cfg + CANVAS_HEIGHT cfg) / 50)
              \<and> durationTimesSpeed cfg ls audioDuration = Some 0)"
  using assms visualDuration_Some [OF assms(2)]
  by (auto simp: durationTimesSpeed_def maxDuration_def)

text \<open>
  The amended C5 on the sample configuration (two lines of 72 pixels, a viewport of 1080,
  50 pixels per second): the duration is 1224 / 50 and the product 1224.
\<close>

theorem maxDuration_times_speed_witness:
  "\<not> (truthy_str (audioUrl sampleConfig) \<and> (0::real) < 0)
   \<and> effectiveScrollSpeed sampleConfig (lines (Some charWidth10) sampleConfig) 0 = Some 50
   \<and> (50::real) \<noteq> 0
   \<and> maxDuration sampleConfig (lines (Some charWidth10) sampleConfig) 0 = Some (1224 / 50)
   \<and> durationTimesSpeed sampleConfig (lines (Some charWidth10) sampleConfig) 0 = Some 1224"
proof -
  let ?ls = "lines (Some charWidth10) sampleConfig"
  have a: "\<not> (truthy_str (audioUrl sampleConfig) \<and> (0::real) < 0)" by simp
  have e: "effectiveScrollSpeed sampleConfig ?ls 0 = Some 50"
    by (simp add: effectiveScrollSpeed_def sampleConfig_def)
  have d: "totalTextHeight ?ls sampleConfig + CANVAS_HEIGHT sampleConfig = 1224"
    using sample_distance [of 50] by (simp add: sampleConfig_def)
  have m: "maxDuration sampleConfig ?ls 0 = Some (1224 / 50)"
    using visualDuration_Some [OF e] d by (simp add: maxDuration_def)
  show ?thesis
    using a e d m maxDuration_times_speed [OF a e] by simp
qed

section \<open>Properties of the ticker\<close>

lemma js_rem_bounds:
  assumes "0 \<le> r" and "0 < L"
  shows "\<exists>shift. js_rem r L = Some shift \<and> 0 \<le> shift \<and> shift < L"
proof -
  have q: "0 \<le> r / L" using assms by simp
  let ?n = "\<lfloor>r / L\<rfloor>"
  have "of_int ?n * L \<le> r"
    using assms(2) by (rule floor_divide_lower)
  moreover have "r < (of_int ?n + 1) * L"
    using assms(2) by (rule floor_divide_upper)
  then have "r - L * of_int ?n < L"
    by (simp add: algebra_simps)
  ultimately show ?thesis
    using q assms(2) by (simp add: js_rem_def js_trunc_def mult.commute)
qed

lemma ticker_sample_draws: "tickerDraws charWidth10 sampleConfig 0 = Some [1920, 2320, 1520]"
  by (simp add: tickerDraws_def)
    (simp add: sampleConfig_def charWidth10_def js_rem_def js_trunc_def CANVAS_WIDTH_def)

text \<open>
  C3 does not hold of the code. On the 1920 pixel canvas, a ticker text 100 pixels wide
  (loop width 400) is drawn at time 0 at 1920, 2320 and 1520 only. The endless loop has
  its copy number \<open>-2\<close> at 1120, which covers the abscissa 1200 of the visible band; no
  drawn copy does, and no text at all is drawn left of 1520.
\<close>

theorem ticker_gap_at_start:
  "tickerDraws charWidth10 sampleConfig 0 = Some [1920, 2320, 1520]
   \<and> (0::real) \<le> 1200 \<and> 1200 \<le> CANVAS_WIDTH sampleConfig
   \<and> textAt 100 (loopCopy 1920 400 (- 2)) 1200
   \<and> \<not> drawnCovers [1920, 2320, 1520] 100 1200"
  using ticker_sample_draws
  by (simp add: textAt_def loopCopy_def drawnCovers_def CANVAS_WIDTH_def sampleConfig_def)

text \<open>
  The gap is there at every time: whatever the shift, no copy is drawn over the part of
  the band left of \<open>CANVAS_WIDTH - 2 \<times> loopWidth\<close>.
\<close>

lemma ticker_left_band_empty:
  assumes tt: "tickerText cfg = Some txt" "txt \<noteq> []"
    and nonneg: "0 \<le> time * tickerSpeed cfg" "0 \<le> measureTicker txt"
    and x: "x < CANVAS_WIDTH cfg - 2 * (measureTicker txt + 300)"
  shows "\<exists>xs. tickerDraws measureTicker cfg time = Some xs
           \<and> \<not> drawnCovers xs (measureTicker txt) x"
proof -
  let ?L = "measureTicker txt + 300"
  have Lpos: "0 < ?L" using nonneg(2) by simp
  from js_rem_bounds [OF nonneg(1) Lpos]
  obtain shift where sh: "js_rem (time * tickerSpeed cfg) ?L = Some shift"
    and b: "0 \<le> shift" "shift < ?L"
    by blast
  let ?s = "CANVAS_WIDTH cfg - shift"
  have draws: "tickerDraws measureTicker cfg time = Some [?s, ?s + ?L, ?s - ?L]"
    using tt sh by (simp add: tickerDraws_def Let_def)
  have "x < ?s - ?L" using x b by simp
  then have "\<not> drawnCovers [?s, ?s + ?L, ?s - ?L] (measureTicker txt) x"
    using Lpos by (simp add: drawnCovers_def textAt_def)
  with draws show ?thesis by blast
qed

text \<open>
  The three copies do reproduce the endless loop on the visible band when the text is
  long enough for the canvas: \<open>CANVAS_WIDTH < textWidth + 600\<close> (the shift being taken
  of a non-negative \<open>time \<times> tickerSpeed\<close>).
\<close>

lemma ticker_seamless_for_long_text:
  assumes tt: "tickerText cfg = Some txt" "txt \<noteq> []"
    and nonneg: "0 \<le> time * tickerSpeed cfg" "0 \<le> measureTicker txt"
    and long: "CANVAS_WIDTH cfg < measureTicker txt + 600"
    and x: "0 \<le> x" "x \<le> CANVAS_WIDTH cfg"
  shows "\<exists>startX. tickerDraws measureTicker cfg time
                    = Some [startX, startX + (measureTicker txt + 300),
                            startX - (measureTicker txt + 300)]
           \<and> (\<forall>k. textAt (measureTicker txt) (loopCopy startX (measureTicker txt + 300) k) x
                 \<longrightarrow> drawnCovers [startX, startX + (measureTicker txt + 300),
                                   startX - (measureTicker txt + 300)] (measureTicker txt) x)"
proof -
  let ?tw = "measureTicker txt"
  let ?L = "?tw + 300"
  let ?W = "CANVAS_WIDTH cfg"
  have Lpos: "0 < ?L" using nonneg(2) by simp
  from js_rem_bounds [OF nonneg(1) Lpos]
  obtain shift where sh: "js_rem (time * tickerSpeed cfg) ?L = Some shift"
    and b: "0 \<le> shift" "shift < ?L"
    by blast
  let ?s = "?W - shift"
  have draws: "tickerDraws measureTicker cfg time = Some [?s, ?s + ?L, ?s - ?L]"
    using tt sh by (simp add: tickerDraws_def Let_def)
  have cover: "drawnCovers [?s, ?s + ?L, ?s - ?L] ?tw x"
    if t: "textAt ?tw (loopCopy ?s ?L k) x" for k
  proof -
    from t have lo: "?s + of_int k * ?L \<le> x" and hi: "x \<le> ?s + of_int k * ?L + ?tw"
      by (simp_all add: textAt_def loopCopy_def)
    have "k < 2"
    proof (rule ccontr)
      assume "\<not> k < 2"
      then have "(2::real) \<le> of_int k" by simp
      then have "2 * ?L \<le> of_int k * ?L"
        using Lpos by (intro mult_right_mono) simp_all
      with lo b x show False by simp
    qed
    moreover have "- 2 < k"
    proof (rule ccontr)
      assume "\<not> - 2 < k"
      then have "of_int k \<le> (- 2::real)" by simp
      then have "of_int k * ?L \<le> (- 2) * ?L"
        using Lpos by (intro mult_right_mono) simp_all
      with hi b x long show False by simp
    qed
    ultimately have "k = - 1 \<or> k = 0 \<or> k = 1" by auto
    with lo hi show ?thesis
      by (auto simp: drawnCovers_def textAt_def)
  qed
  from draws cover show ?thesis by blast
qed

section \<open>Properties of the audio graph\<close>

text \<open>
  C7: when the effect runs for a started export, it changes neither capture-path gain
  node (main gain, background music gain); with \<open>muteOnExport\<close> set and an audio context,
  each monitor-path gain node that exists (main monitor, background music monitor) gets
  \<open>setTargetAtTime\<close> with target 0, from the current context time, with the time constant
  0.1.
\<close>

theorem muteMonitor_on_export:
  "mainAudioGainNodeRef (muteMonitorEffect cfg True g) = mainAudioGainNodeRef g
   \<and> bgMusicGainNodeRef (muteMonitorEffect cfg True g) = bgMusicGainNodeRef g
   \<and> (muteOnExport cfg \<longrightarrow> audioContextRef g = Some ctxTime \<longrightarrow>
        monitorGainNodeRef (muteMonitorEffect cfg True g)
          = map_option (setTargetAtTime 0 ctxTime 0.1) (monitorGainNodeRef g)
        \<and> bgMusicMonitorGainNodeRef (muteMonitorEffect cfg True g)
          = map_option (setTargetAtTime 0 ctxTime 0.1) (bgMusicMonitorGainNodeRef g))"
  by (simp add: muteMonitorEffect_def Let_def split: option.split)

text \<open>
  C7 on a graph with its four gain nodes, at the context time 5.
\<close>

theorem muteMonitor_on_export_witness:
  "muteOnExport sampleConfig \<and> audioContextRef sampleGraph = Some 5
   \<and> monitorGainNodeRef (muteMonitorEffect sampleConfig True sampleGraph)
       = Some \<lparr>gain_value = 0.95, automation = [(0, 5, 0.1)]\<rparr>
   \<and> bgMusicMonitorGainNodeRef (muteMonitorEffect sampleConfig True sampleGraph)
       = Some \<lparr>gain_value = 0.5, automation = [(0, 5, 0.1)]\<rparr>
   \<and> mainAudioGainNodeRef (muteMonitorEffect sampleConfig True sampleGraph)
       = Some \<lparr>gain_value = 1, automation = []\<rparr>
   \<and> bgMusicGainNodeRef (muteMonitorEffect sampleConfig True sampleGraph)
       = Some \<lparr>gain_value = 0.5, automation = []\<rparr>"
proof -
  have m: "muteOnExport sampleConfig" by (simp add: sampleConfig_def)
  have c: "audioContextRef sampleGraph = Some 5" by (simp add: sampleGraph_def)
  have n: "monitorGainNodeRef sampleGraph = Some \<lparr>gain_value = 0.95, automation = []\<rparr>"
    "bgMusicMonitorGainNodeRef sampleGraph = Some \<lparr>gain_value = 0.5, automation = []\<rparr>"
    "mainAudioGainNodeRef sampleGraph = Some \<lparr>gain_value = 1, automation = []\<rparr>"
    "bgMusicGainNodeRef sampleGraph = Some \<lparr>gain_value = 0.5, automation = []\<rparr>"
    by (simp_all add: sampleGraph_def)
  show ?thesis
    using m c n muteMonitor_on_export [of sampleConfig sampleGraph 5]
    by (simp add: setTargetAtTime_def)
qed

text \<open>
  After the volume effect and the mute effect, in an export or not, the capture-path
  gains are the configured volumes.
\<close>

lemma capture_gains_after_mute:
  "map_option gain_value
     (mainAudioGainNodeRef (muteMonitorEffect cfg exporting (volumeControlEffect cfg g)))
     = map_option (\<lambda>n. case mainAudioVolume cfg of None \<Rightarrow> 1 | Some v \<Rightarrow> v)
         (mainAudioGainNodeRef g)
   \<and> map_option gain_value
       (bgMusicGainNodeRef (muteMonitorEffect cfg exporting (volumeControlEffect cfg g)))
     = map_option (\<lambda>n. bgMusicVolume cfg) (bgMusicGainNodeRef g)"
  by (simp add: muteMonitorEffect_def volumeControlEffect_def Let_def option.map_comp comp_def
      split: option.split)

section \<open>Properties of the export loop\<close>

lemma recordingState_eq:
  "recordingState = idleState\<lparr>isExporting := True, isPlaying := True, lastTimeRef := 600,
     mediaRecorderRef := Some Recording, fallbackTimer := True\<rparr>"
  by (simp add: recordingState_def startRecording_def handleExport_def idleState_def
      sampleConfig_def truthy_str_def rewindElement_def Let_def)

lemma workerOnMessage_time:
  "currentTimeRef (workerOnMessage cfg maxDur now st) = currentTimeRef st + (now - lastTimeRef st) / 1000
   \<and> lastTimeRef (workerOnMessage cfg maxDur now st) = now
   \<and> currentTime (workerOnMessage cfg maxDur now st) = currentTimeRef st + (now - lastTimeRef st) / 1000"
  by (simp add: workerOnMessage_def finishExport_def Let_def split: option.split RecorderState.split)

lemma workerOnMessage_ignores_audio_time:
  "workerOnMessage cfg maxDur now (seekAudio t st) = seekAudio t (workerOnMessage cfg maxDur now st)"
  by (cases "audioRef st")
    (auto simp: workerOnMessage_def finishExport_def seekAudio_def audioEnded_def Let_def
      split: option.split RecorderState.split)

text \<open>
  C4, as stated, fails: the export of a configuration without primary audio arms a
  safety timeout, and when it fires the recorder is stopped although the audio has not
  ended, the accumulator (here 0) is below \<open>maxDuration + 0.5\<close>, and nobody cancelled.
\<close>

theorem export_fallback_counterexample:
  "finishes recordingState (exportStep sampleConfig (1224 / 50) FallbackTimeout recordingState)
   \<and> \<not> claimedFinish sampleConfig (1224 / 50) FallbackTimeout
         (exportStep sampleConfig (1224 / 50) FallbackTimeout recordingState)"
  unfolding recordingState_eq
  by (simp add: finishes_def exportStep_def finishExport_def claimedFinish_def idleState_def
      sampleConfig_def truthy_str_def)

text \<open>
  C4, amended: while the recorder is recording, a step of the export regime stops it
  exactly when it is a worker tick at which the primary audio of a configuration with an
  audio URL reports ended or the accumulator, advanced by this tick, has reached
  \<open>maxDuration + 0.5\<close>; or the click on the cancel button; or the firing of the safety
  timeout, which \<open>startRecording\<close> arms only without an audio URL or with an audio
  error. A tick adds the wall-clock time since \<open>lastTimeRef\<close>, in seconds, to the
  accumulator and sets \<open>lastTimeRef\<close> to the time of the tick; its result does not depend
  on the playback position of the audio element.
\<close>

theorem export_finish_conditions:
  assumes "mediaRecorderRef st = Some Recording"
  shows "(finishes st (exportStep cfg maxDur ev st) \<longleftrightarrow>
           (case ev of
              WorkerTick now \<Rightarrow>
                (truthy_str (audioUrl cfg) \<and> audioEnded st)
                \<or> currentTimeRef st + (now - lastTimeRef st) / 1000 \<ge> maxDur + 0.5
            | CancelClick \<Rightarrow> True
            | FallbackTimeout \<Rightarrow> fallbackTimer st))
         \<and> (fallbackTimer (startRecording cfg now0 mainPlay bgPlay canvasPresent recorderCreated st0)
              \<longrightarrow> fallbackTimer st0 \<or> \<not> truthy_str (audioUrl cfg) \<or> audioError st0)
         \<and> currentTimeRef (workerOnMessage cfg maxDur now st)
             = currentTimeRef st + (now - lastTimeRef st) / 1000
         \<and> lastTimeRef (workerOnMessage cfg maxDur now st) = now
         \<and> workerOnMessage cfg maxDur now (seekAudio t st)
             = seekAudio t (workerOnMessage cfg maxDur now st)"
proof -
  have fin: "finishes st (exportStep cfg maxDur ev st) \<longleftrightarrow>
           (case ev of
              WorkerTick now \<Rightarrow>
                (truthy_str (audioUrl cfg) \<and> audioEnded st)
                \<or> currentTimeRef st + (now - lastTimeRef st) / 1000 \<ge> maxDur + 0.5
            | CancelClick \<Rightarrow> True
            | FallbackTimeout \<Rightarrow> fallbackTimer st)"
    using assms
    by (cases ev)
      (auto simp: exportStep_def workerOnMessage_def finishExport_def finishes_def
        audioEnded_def Let_def)
  have arm: "fallbackTimer (startRecording cfg now0 mainPlay bgPlay canvasPresent recorderCreated st0)
              \<longrightarrow> fallbackTimer st0 \<or> \<not> truthy_str (audioUrl cfg) \<or> audioError st0"
    by (auto simp: startRecording_def Let_def split: if_splits)
  from fin arm workerOnMessage_time [of cfg maxDur now st]
    workerOnMessage_ignores_audio_time [of cfg maxDur now t st]
  show ?thesis by simp
qed

text \<open>
  The amended C4 on the recording sample export (\<open>maxDuration = 1224 / 50\<close>): a tick
  25 seconds after the start finishes it, a tick after 33 milliseconds does not, a
  cancel does.
\<close>

theorem export_finish_conditions_witness:
  "mediaRecorderRef recordingState = Some Recording
   \<and> finishes recordingState
        (exportStep sampleConfig (1224 / 50) (WorkerTick 25600) recordingState)
   \<and> \<not> finishes recordingState
          (exportStep sampleConfig (1224 / 50) (WorkerTick 633) recordingState)
   \<and> finishes recordingState (exportStep sampleConfig (1224 / 50) CancelClick recordingState)
   \<and> currentTimeRef (workerOnMessage sampleConfig (1224 / 50) 633 recordingState) = 33 / 1000"
proof -
  have r: "mediaRecorderRef recordingState = Some Recording"
    by (simp add: recordingState_eq)
  have v: "currentTimeRef recordingState = 0" "lastTimeRef recordingState = 600"
    "\<not> truthy_str (audioUrl sampleConfig)"
    by (simp_all add: recordingState_eq idleState_def sampleConfig_def truthy_str_def)
  show ?thesis
    using r v
      export_finish_conditions [OF r, of sampleConfig "1224 / 50" "WorkerTick 25600"]
      export_finish_conditions [OF r, of sampleConfig "1224 / 50" "WorkerTick 633" _ _ _ _ _ _ 633]
      export_finish_conditions [OF r, of sampleConfig "1224 / 50" CancelClick]
    by simp
qed

section \<open>Properties of starting playback\<close>




end
